theory Spec2Isabelle
  imports Main
begin

section \<open>Prospector: version resolution from git history\<close>

text \<open>
  A shallow embedding of \<^verbatim>\<open>src/index.ts\<close>. JavaScript strings are modelled as
  \<^typ>\<open>string\<close>, JavaScript numbers that count things as \<^typ>\<open>nat\<close> (no rounding above
  \<open>2^53\<close>), \<^verbatim>\<open>null\<close>/\<^verbatim>\<open>undefined\<close> as \<^const>\<open>None\<close>. The git child process is
  replaced by a record holding the commits and tags of the repository; what \<^verbatim>\<open>git log\<close>
  prints for them is built character by character and parsed as the source parses it.
  Every call of git and every progress notification is recorded in an explicit state that
  is threaded through the functions in the order of the source.
\<close>

subsection \<open>Characters and literal matching\<close>

definition char_code :: "char \<Rightarrow> nat" where
  "char_code c = of_char c"

text \<open>The regular expression class \<^verbatim>\<open>\d\<close>.\<close>

definition is_digit :: "char \<Rightarrow> bool" where
  "is_digit c \<longleftrightarrow> 48 \<le> char_code c \<and> char_code c \<le> 57"

text \<open>
  Canonicalisation of a character under the \<^verbatim>\<open>i\<close> flag: ASCII lower-case letters are
  compared through their upper-case code, every other character through its own.
\<close>

definition fold_case :: "char \<Rightarrow> nat" where
  "fold_case c = (if 97 \<le> char_code c \<and> char_code c \<le> 122 then char_code c - 32 else char_code c)"

text \<open>\<open>starts_with_ci p s\<close>: the literal \<open>p\<close> matches at the start of \<open>s\<close>, ignoring case.\<close>

fun starts_with_ci :: "string \<Rightarrow> string \<Rightarrow> bool" where
  "starts_with_ci [] s = True"
| "starts_with_ci (p # ps) [] = False"
| "starts_with_ci (p # ps) (c # cs) = (fold_case p = fold_case c \<and> starts_with_ci ps cs)"

text \<open>\<open>search_ci p s\<close>: an unanchored regular expression that is the literal \<open>p\<close>, with flag \<^verbatim>\<open>i\<close>,
  tested on \<open>s\<close>.\<close>

fun search_ci :: "string \<Rightarrow> string \<Rightarrow> bool" where
  "search_ci p [] = starts_with_ci p []"
| "search_ci p (c # cs) = (starts_with_ci p (c # cs) \<or> search_ci p cs)"

subsection \<open>Patterns\<close>

text \<open>
  A \<^verbatim>\<open>RegExp\<close> used only through \<^verbatim>\<open>test\<close> and without the \<^verbatim>\<open>g\<close> or \<^verbatim>\<open>y\<close> flag is a
  predicate on the tested string.
\<close>

type_synonym RegExp = "string \<Rightarrow> bool"

record BumpPatterns =
  major_pattern :: "RegExp option"
  minor_pattern :: "RegExp option"
  patch_pattern :: "RegExp option"

text \<open>\<^verbatim>\<open>DEFAULT_BUMP_PATTERNS\<close>: \<^verbatim>\<open>/\[major\]/i\<close>, \<^verbatim>\<open>/\[minor\]/i\<close>, \<^verbatim>\<open>/\[patch\]/i\<close>.\<close>

definition DEFAULT_major :: RegExp where
  "DEFAULT_major = search_ci ''[major]''"

definition DEFAULT_minor :: RegExp where
  "DEFAULT_minor = search_ci ''[minor]''"

definition DEFAULT_patch :: RegExp where
  "DEFAULT_patch = search_ci ''[patch]''"

text \<open>\<^verbatim>\<open>pattern?.test(message)\<close>: an absent pattern tests false.\<close>

definition test_opt :: "RegExp option \<Rightarrow> string \<Rightarrow> bool" where
  "test_opt p m = (case p of None \<Rightarrow> False | Some r \<Rightarrow> r m)"

text \<open>
  \<^verbatim>\<open>VERSION_SET_PATTERN = /\[(?:version|v):(\d+\.\d+\.\d+)\]/i\<close>.
  \<open>digits1\<close> is \<^verbatim>\<open>\d+\<close> followed by a character that is not a digit: the longest run of
  digits, which must not be empty, and the rest of the input.
\<close>

definition digits1 :: "string \<Rightarrow> (string \<times> string) option" where
  "digits1 s = (if takeWhile is_digit s = [] then None
                else Some (takeWhile is_digit s, dropWhile is_digit s))"

text \<open>\<open>literal1 c s\<close>: the character \<open>c\<close> at the start of \<open>s\<close>; the rest of the input.\<close>

definition literal1 :: "char \<Rightarrow> string \<Rightarrow> string option" where
  "literal1 c s = (case s of [] \<Rightarrow> None | x # r \<Rightarrow> if x = c then Some r else None)"

text \<open>\<^verbatim>\<open>:(\d+\.\d+\.\d+)\]\<close> at the start of the input; the result is the captured group.\<close>

definition version_tail :: "string \<Rightarrow> string option" where
  "version_tail s =
     (case literal1 CHR '':'' s of None \<Rightarrow> None | Some s1 \<Rightarrow>
      case digits1 s1 of None \<Rightarrow> None | Some (a, s2) \<Rightarrow>
      case literal1 CHR ''.'' s2 of None \<Rightarrow> None | Some s3 \<Rightarrow>
      case digits1 s3 of None \<Rightarrow> None | Some (b, s4) \<Rightarrow>
      case literal1 CHR ''.'' s4 of None \<Rightarrow> None | Some s5 \<Rightarrow>
      case digits1 s5 of None \<Rightarrow> None | Some (c, s6) \<Rightarrow>
      case literal1 CHR '']'' s6 of None \<Rightarrow> None | Some s7 \<Rightarrow>
        Some (a @ ''.'' @ b @ ''.'' @ c))"

text \<open>The whole pattern anchored at the start of the input: the alternative \<^verbatim>\<open>version\<close> is
  tried before \<^verbatim>\<open>v\<close>.\<close>

definition version_set_at :: "string \<Rightarrow> string option" where
  "version_set_at s =
     (case literal1 CHR ''['' s of None \<Rightarrow> None | Some r \<Rightarrow>
      case (if starts_with_ci ''version'' r then version_tail (drop 7 r) else None) of
        Some v \<Rightarrow> Some v
      | None \<Rightarrow> if starts_with_ci ''v'' r then version_tail (drop 1 r) else None)"

text \<open>\<^verbatim>\<open>VERSION_SET_PATTERN.exec(message)?.[1]\<close>: group 1 of the leftmost match.\<close>

fun VERSION_SET_PATTERN :: "string \<Rightarrow> string option" where
  "VERSION_SET_PATTERN [] = None"
| "VERSION_SET_PATTERN (c # cs) =
     (case version_set_at (c # cs) of Some v \<Rightarrow> Some v | None \<Rightarrow> VERSION_SET_PATTERN cs)"

subsection \<open>Commits and the bump tally\<close>

record CommitInfo =
  hash :: string
  message :: string

record CommitBumps =
  major :: nat
  minor :: nat
  patch :: nat
  explicitVersion :: "string option"

definition no_bumps :: CommitBumps where
  "no_bumps = \<lparr>major = 0, minor = 0, patch = 0, explicitVersion = None\<rparr>"

text \<open>
  \<open>explicit_marker m\<close> is the condition \<^verbatim>\<open>versionMatch?.[1]\<close> of \<^verbatim>\<open>analyzeCommitBumps\<close>:
  the pattern matches and the captured string is truthy (not empty).
\<close>

definition explicit_marker :: "string \<Rightarrow> string option" where
  "explicit_marker m =
     (case VERSION_SET_PATTERN m of None \<Rightarrow> None | Some v \<Rightarrow> if v = [] then None else Some v)"

text \<open>
  The loop of \<^verbatim>\<open>analyzeCommitBumps\<close>, with the tally as accumulator; \<^verbatim>\<open>break\<close> is the
  equation that does not recurse.
\<close>

fun analyze_loop :: "BumpPatterns \<Rightarrow> CommitInfo list \<Rightarrow> CommitBumps \<Rightarrow> CommitBumps" where
  "analyze_loop p [] bumps = bumps"
| "analyze_loop p (c # cs) bumps =
     (case explicit_marker (message c) of
        Some v \<Rightarrow> bumps\<lparr>explicitVersion := Some v\<rparr>
      | None \<Rightarrow>
          if test_opt (major_pattern p) (message c) then
            analyze_loop p cs (bumps\<lparr>major := major bumps + 1\<rparr>)
          else if test_opt (minor_pattern p) (message c) then
            analyze_loop p cs (bumps\<lparr>minor := minor bumps + 1\<rparr>)
          else if test_opt (patch_pattern p) (message c) then
            analyze_loop p cs (bumps\<lparr>patch := patch bumps + 1\<rparr>)
          else analyze_loop p cs bumps)"

definition analyzeCommitBumps :: "CommitInfo list \<Rightarrow> BumpPatterns \<Rightarrow> CommitBumps" where
  "analyzeCommitBumps commits patterns = analyze_loop patterns commits no_bumps"

subsection \<open>Branch names in prerelease identifiers\<close>

text \<open>The character class \<^verbatim>\<open>[a-zA-Z0-9-]\<close>.\<close>

definition branch_char :: "char \<Rightarrow> bool" where
  "branch_char c \<longleftrightarrow>
     (97 \<le> char_code c \<and> char_code c \<le> 122) \<or> (65 \<le> char_code c \<and> char_code c \<le> 90) \<or>
     (48 \<le> char_code c \<and> char_code c \<le> 57) \<or> c = CHR ''-''"

text \<open>
  \<^verbatim>\<open>currentBranch.replace(/[^a-zA-Z0-9-]/g, '-').replace(/^-+|-+$/g, '')\<close>: the first
  replacement rewrites every character outside the class, the second removes the run of
  \<^verbatim>\<open>-\<close> at the start and the run at the end.
\<close>

definition branchName :: "string \<Rightarrow> string" where
  "branchName currentBranch =
     (let replaced = map (\<lambda>c. if branch_char c then c else CHR ''-'') currentBranch
      in rev (dropWhile (\<lambda>c. c = CHR ''-'') (rev (dropWhile (\<lambda>c. c = CHR ''-'') replaced))))"

subsection \<open>Numbers in template literals\<close>

text \<open>Decimal notation of a count, as a template literal prints a non-negative integer.\<close>

definition digit_char :: "nat \<Rightarrow> char" where
  "digit_char d = ''0123456789'' ! d"

function decimal :: "nat \<Rightarrow> string" where
  "decimal n =
     (if 10 \<le> n then decimal (n div 10) @ [digit_char (n mod 10)] else [digit_char n])"
  by pat_completeness auto
termination
  by (relation "measure id") auto

declare decimal.simps [simp del]

text \<open>A number that may be negative (the option \<^verbatim>\<open>maxCommitScan\<close>).\<close>

definition signed_decimal :: "int \<Rightarrow> string" where
  "signed_decimal i = (if 0 \<le> i then decimal (nat i) else CHR ''-'' # decimal (nat (- i)))"

text \<open>\<^verbatim>\<open>toLocaleString()\<close>; the digit grouping of the host locale is not modelled.\<close>

definition toLocaleString :: "nat \<Rightarrow> string" where
  "toLocaleString n = decimal n"

subsection \<open>Versions and tags\<close>

text \<open>
  A \<^verbatim>\<open>semver.SemVer\<close> without prerelease or build part, and its \<^verbatim>\<open>format()\<close>.
\<close>

record SemVer =
  semver_major :: nat
  semver_minor :: nat
  semver_patch :: nat

definition format :: "SemVer \<Rightarrow> string" where
  "format v = decimal (semver_major v) @ ''.'' @ decimal (semver_minor v) @ ''.'' @
              decimal (semver_patch v)"

record VersionTag =
  tag :: string
  tag_version :: SemVer
  commit :: string

subsection \<open>The repository and the effects of a run\<close>

text \<open>
  The repository as git sees it. \<open>git_log r from\<close> lists the commits of the range
  \<^verbatim>\<open>from..HEAD\<close>, newest first, and all commits reachable from \<^verbatim>\<open>HEAD\<close> when \<open>from\<close> is
  empty; the \<open>message\<close> of a commit is its raw body (\<^verbatim>\<open>%B\<close>), which is empty for a commit
  made with an empty message. \<^verbatim>\<open>git rev-list --count\<close> on a range answers the length of
  that list. \<open>version_tags\<close> is the result of \<^verbatim>\<open>getVersionTags\<close> (the listing, parsing and
  sorting of tags is not modelled), \<open>merged_tags\<close> the lines of \<^verbatim>\<open>git tag --merged\<close>.
  \<open>timer_ticks\<close> is the number of 500 ms intervals that elapse while a count is running.
\<close>

record Repository =
  abbrev_ref :: string
  head_commit :: string
  version_tags :: "VersionTag list"
  merged_tags :: "string list"
  git_log :: "string \<Rightarrow> CommitInfo list"
  timer_ticks :: nat

datatype GitCommand =
    RevParseAbbrevRef
  | RevParseHead
  | TagList
  | TagMerged string
  | RevListCount string
  | RevListCountAll
  | Log string "nat option"
  | LogGrep string

text \<open>
  The state threaded through a run: the git commands issued so far, and the state of the
  caller that the progress callback acts on.
\<close>

record 's World =
  git_calls :: "GitCommand list"
  observer :: 's

type_synonym 's Progress = "string \<Rightarrow> 's \<Rightarrow> 's"

definition git :: "GitCommand \<Rightarrow> 's World \<Rightarrow> 's World" where
  "git c w = w\<lparr>git_calls := git_calls w @ [c]\<rparr>"

definition notify :: "'s Progress \<Rightarrow> string \<Rightarrow> 's World \<Rightarrow> 's World" where
  "notify onProgress m w = w\<lparr>observer := onProgress m (observer w)\<rparr>"

subsection \<open>Queries\<close>

definition getCurrentBranch :: "Repository \<Rightarrow> 's World \<Rightarrow> string \<times> 's World" where
  "getCurrentBranch repo w =
     (if abbrev_ref repo = [] then ''unknown'' else abbrev_ref repo, git RevParseAbbrevRef w)"

definition getCurrentCommit :: "Repository \<Rightarrow> 's World \<Rightarrow> string \<times> 's World" where
  "getCurrentCommit repo w = (head_commit repo, git RevParseHead w)"

definition getVersionTags :: "Repository \<Rightarrow> 's World \<Rightarrow> VersionTag list \<times> 's World" where
  "getVersionTags repo w = (version_tags repo, git TagList w)"

definition getLastVersionTag ::
  "Repository \<Rightarrow> string \<Rightarrow> VersionTag list \<Rightarrow> 's World \<Rightarrow> VersionTag option \<times> 's World" where
  "getLastVersionTag repo currentCommit versionTags w =
     (if versionTags = [] then (None, w)
      else
        let w1 = git (TagMerged currentCommit) w;
            reachableTags = filter (\<lambda>l. l \<noteq> []) (merged_tags repo)
        in if reachableTags = [] then (None, w1)
           else (find (\<lambda>t. tag t \<in> set reachableTags) versionTags, w1))"

text \<open>The timer of \<^verbatim>\<open>countCommits\<close>: tick \<open>k\<close> reports \<open>k mod 4\<close> dots.\<close>

definition count_ticks :: "'s Progress \<Rightarrow> string \<Rightarrow> nat \<Rightarrow> 's World \<Rightarrow> 's World" where
  "count_ticks onProgress label n w =
     fold (\<lambda>k. notify onProgress (label @ replicate (k mod 4) CHR ''.'')) [1..<Suc n] w"

definition countCommits ::
  "Repository \<Rightarrow> string \<Rightarrow> 's Progress \<Rightarrow> 's World \<Rightarrow> nat \<times> 's World" where
  "countCommits repo from onProgress w =
     (length (git_log repo from),
      count_ticks onProgress ''Counting commits'' (timer_ticks repo) (git (RevListCount from) w))"

definition countAllCommits :: "Repository \<Rightarrow> 's Progress \<Rightarrow> 's World \<Rightarrow> nat \<times> 's World" where
  "countAllCommits repo onProgress w =
     (length (git_log repo []),
      count_ticks onProgress ''Counting all commits'' (timer_ticks repo) (git RevListCountAll w))"

subsection \<open>The output of \<^verbatim>\<open>git log\<close> and its parsing\<close>

definition NUL :: char where
  "NUL = CHR 0x00"

definition LF :: char where
  "LF = CHR 0x0A"

text \<open>
  What git prints for \<^verbatim>\<open>--format=%H%x00%B%x00\<close>: for each commit the hash, a NUL, the raw
  body, a NUL, and the line feed that ends every record of a format.
\<close>

definition log_output :: "CommitInfo list \<Rightarrow> string" where
  "log_output commits = concat (map (\<lambda>c. hash c @ [NUL] @ message c @ [NUL, LF]) commits)"

text \<open>
  \<^verbatim>\<open>String.prototype.trim\<close>, which \<^verbatim>\<open>gitExec\<close> applies to the output: white space is
  removed at both ends (the white space of ASCII: tab, line feed, vertical tab, form feed,
  carriage return, space).
\<close>

definition white_space :: "char \<Rightarrow> bool" where
  "white_space c \<longleftrightarrow> c \<in> set [CHR 0x09, CHR 0x0A, CHR 0x0B, CHR 0x0C, CHR 0x0D, CHR '' '']"

definition trim :: "string \<Rightarrow> string" where
  "trim s = rev (dropWhile white_space (rev (dropWhile white_space s)))"

text \<open>
  \<^verbatim>\<open>String.prototype.split\<close> with a separator that is not empty: the pieces between the
  occurrences of the separator, found from left to right. \<open>piece\<close> holds the characters
  read since the last occurrence.
\<close>

function split_from :: "string \<Rightarrow> string \<Rightarrow> string \<Rightarrow> string list" where
  "split_from sep piece [] = [piece]"
| "split_from sep piece (c # cs) =
     (if sep \<noteq> [] \<and> take (length sep) (c # cs) = sep
      then piece # split_from sep [] (drop (length sep) (c # cs))
      else split_from sep (piece @ [c]) cs)"
  by pat_completeness auto
termination
  by (relation "measure (\<lambda>(sep, piece, rest). length rest)") auto

declare split_from.simps(2) [simp del]

definition js_split :: "string \<Rightarrow> string \<Rightarrow> string list" where
  "js_split s sep = split_from sep [] s"

text \<open>
  One block: \<^verbatim>\<open>const [ hash, message ] = block.split('\x00')\<close>, kept
  \<^verbatim>\<open>if (hash && message !== undefined)\<close>. The result has one commit or none.
\<close>

definition parse_block :: "string \<Rightarrow> CommitInfo list" where
  "parse_block block =
     (case js_split block [NUL] of
        h # m # rest \<Rightarrow> if h \<noteq> [] then [\<lparr>hash = h, message = m\<rparr>] else []
      | _ \<Rightarrow> [])"

text \<open>\<^verbatim>\<open>output.split('\x00\x00').filter(Boolean)\<close>.\<close>

definition commit_blocks :: "string \<Rightarrow> string list" where
  "commit_blocks output = filter (\<lambda>b. b \<noteq> []) (js_split output [NUL, NUL])"

text \<open>Lines 366 to 378 of \<^verbatim>\<open>getCommitMessages\<close>: no output, or the commits of its blocks.\<close>

definition parse_output :: "string \<Rightarrow> CommitInfo list" where
  "parse_output output =
     (if output = [] then [] else concat (map parse_block (commit_blocks output)))"

text \<open>\<^verbatim>\<open>getCommitMessages\<close>: a limit that is absent or zero is falsy and adds no \<^verbatim>\<open>-n\<close>.\<close>

definition getCommitMessages ::
  "Repository \<Rightarrow> string \<Rightarrow> nat option \<Rightarrow> 's World \<Rightarrow> CommitInfo list \<times> 's World" where
  "getCommitMessages repo from limit w =
     (case limit of
        None \<Rightarrow>
          (parse_output (trim (log_output (git_log repo from))), git (Log from None) w)
      | Some n \<Rightarrow>
          if n = 0
          then (parse_output (trim (log_output (git_log repo from))), git (Log from None) w)
          else (parse_output (trim (log_output (take n (git_log repo from)))),
                git (Log from (Some n)) w))"

text \<open>
  The pattern given to \<^verbatim>\<open>git log --grep\<close> by \<^verbatim>\<open>getCommitsWithBumps\<close>. The argument is
  \<^verbatim>\<open>\[major\]\|\[minor\]\|\[patch\]\|\[version:\|\[v:\<close> and it is passed with \<^verbatim>\<open>-E\<close> and
  \<^verbatim>\<open>-i\<close>: in an extended regular expression an escaped bar is a bar, not an alternation,
  so git selects the commits whose message contains, in any case, the one string
  \<^verbatim>\<open>[major]|[minor]|[patch]|[version:|[v:\<close>. The pattern is a constant of the source; the
  configured patterns take no part in it.
\<close>

definition grep_pattern :: "string \<Rightarrow> bool" where
  "grep_pattern m \<longleftrightarrow> search_ci ''[major]|[minor]|[patch]|[version:|[v:'' m"

text \<open>
  The parsing loop of \<^verbatim>\<open>getCommitsWithBumps\<close>:
  \<^verbatim>\<open>for (let i = 0; i < commitBlocks.length; i += PARSE_CHUNK_SIZE)\<close>, one notification
  for each chunk of 1000 blocks.
\<close>

definition PARSE_CHUNK_SIZE :: nat where
  "PARSE_CHUNK_SIZE = 1000"

function parse_chunks ::
  "'s Progress \<Rightarrow> string list \<Rightarrow> nat \<Rightarrow> CommitInfo list \<Rightarrow> 's World \<Rightarrow> CommitInfo list \<times> 's World" where
  "parse_chunks onProgress commitBlocks i allCommits w =
     (if i < length commitBlocks then
        let chunk = take PARSE_CHUNK_SIZE (drop i commitBlocks);
            chunkNum = i div PARSE_CHUNK_SIZE + 1;
            totalChunks = (length commitBlocks + PARSE_CHUNK_SIZE - 1) div PARSE_CHUNK_SIZE;
            allCommits' = allCommits @ concat (map parse_block chunk);
            w' = notify onProgress
                   (''Parsed '' @ toLocaleString (length allCommits') @ '' / '' @
                    toLocaleString (length commitBlocks) @ '' commits (chunk '' @
                    decimal chunkNum @ ''/'' @ decimal totalChunks @ '')'') w
        in parse_chunks onProgress commitBlocks (i + PARSE_CHUNK_SIZE) allCommits' w'
      else (allCommits, w))"
  by pat_completeness auto
termination
proof (relation "measure (\<lambda>(f, blocks, i, acc, w). length blocks - i)")
  show "wf (measure (\<lambda>(f :: 's Progress, blocks :: string list, i :: nat,
                        acc :: CommitInfo list, w :: 's World). length blocks - i))"
    by simp
next
  fix onProgress :: "'s Progress" and commitBlocks :: "string list" and i :: nat
    and allCommits :: "CommitInfo list" and w :: "'s World"
    and chunk chunkNum totalChunks allCommits' w'
  assume "i < length commitBlocks"
  moreover have "0 < PARSE_CHUNK_SIZE"
    by (simp add: PARSE_CHUNK_SIZE_def)
  ultimately have "length commitBlocks - (i + PARSE_CHUNK_SIZE) < length commitBlocks - i"
    by linarith
  then show "((onProgress, commitBlocks, i + PARSE_CHUNK_SIZE, allCommits', w'),
              (onProgress, commitBlocks, i, allCommits, w))
             \<in> measure (\<lambda>(f, blocks, i, acc, w). length blocks - i)"
    by simp
qed

declare parse_chunks.simps [simp del]

definition getCommitsWithBumps ::
  "Repository \<Rightarrow> string \<Rightarrow> 's Progress \<Rightarrow> 's World \<Rightarrow> CommitInfo list \<times> 's World" where
  "getCommitsWithBumps repo from onProgress w =
     (let w1 = notify onProgress ''Searching for version bump markers...'' w;
          w2 = git (LogGrep from) w1;
          output = trim (log_output (filter (\<lambda>c. grep_pattern (message c)) (git_log repo from)))
      in if output = [] then
           ([], notify onProgress ''Search complete - no bump markers found'' w2)
         else
           let commitBlocks = commit_blocks output
           in if commitBlocks = [] then
                ([], notify onProgress ''Search complete - no bump markers found'' w2)
              else
                let w3 = notify onProgress
                           (''Found '' @ toLocaleString (length commitBlocks) @
                            '' commits with bump markers, parsing...'') w2;
                    (allCommits, w4) = parse_chunks onProgress commitBlocks 0 [] w3
                in (allCommits,
                    notify onProgress
                      (''Parsing complete - '' @ toLocaleString (length allCommits) @
                       '' commits with bump markers'') w4))"

subsection \<open>The stages of \<^verbatim>\<open>calculateVersion\<close>\<close>

text \<open>The value of a string that may be \<^verbatim>\<open>null\<close> when it is truthy: present and not empty.\<close>

definition truthy :: "string option \<Rightarrow> string option" where
  "truthy s = (case s of None \<Rightarrow> None | Some v \<Rightarrow> if v = [] then None else Some v)"

text \<open>
  Lines 530 to 558, the body of \<^verbatim>\<open>if (enableCommitBumps && isMainBranch)\<close>: legacy mode
  when \<^verbatim>\<open>maxCommitScan\<close> is set, optimized mode otherwise, then the analysis and its
  report. The range starts at the commit of the last tag, or is the whole history.
\<close>

definition scan_for_bumps ::
  "Repository \<Rightarrow> 's Progress \<Rightarrow> int option \<Rightarrow> BumpPatterns \<Rightarrow> VersionTag option \<Rightarrow> 's World
   \<Rightarrow> (CommitInfo list \<times> CommitBumps) \<times> 's World" where
  "scan_for_bumps repo onProgress maxCommitScan patterns lastTag w =
     (let from = (case lastTag of None \<Rightarrow> [] | Some t \<Rightarrow> commit t);
          (commits, w2) =
            (case maxCommitScan of
               Some m \<Rightarrow>
                 let w1 = notify onProgress
                            (''Scanning up to '' @ signed_decimal m @
                             '' commits for version bumps...'') w;
                     scanLimit = (if m > 0 then Some (nat m) else None)
                 in getCommitMessages repo from scanLimit w1
             | None \<Rightarrow>
                 let w1 = notify onProgress
                            ''Scanning for commits with version bumps (optimized)...'' w;
                     (found, w') = getCommitsWithBumps repo from onProgress w1
                 in (found,
                     notify onProgress
                       (''Found '' @ decimal (length found) @
                        '' commit(s) with bump markers'') w'));
          commitBumps = analyzeCommitBumps commits patterns;
          w3 = (case truthy (explicitVersion commitBumps) of
                  Some v \<Rightarrow> notify onProgress (''Explicit version found: '' @ v) w2
                | None \<Rightarrow>
                    if major commitBumps > 0 \<or> minor commitBumps > 0 \<or> patch commitBumps > 0
                    then notify onProgress
                           (''Bumps detected | Major: '' @ decimal (major commitBumps) @
                            '' | Minor: '' @ decimal (minor commitBumps) @
                            '' | Patch: '' @ decimal (patch commitBumps)) w2
                    else w2)
      in ((commits, commitBumps), w3))"

text \<open>Lines 564 to 577: the number of commits since the last tag.\<close>

definition count_since_tag ::
  "Repository \<Rightarrow> 's Progress \<Rightarrow> int option \<Rightarrow> CommitInfo list \<Rightarrow> VersionTag \<Rightarrow> 's World
   \<Rightarrow> nat \<times> 's World" where
  "count_since_tag repo onProgress maxCommitScan commits lastTag w =
     (let counted =
            (let (n, w1) = countCommits repo (commit lastTag) onProgress w
             in (n, notify onProgress
                      (''Counted '' @ toLocaleString n @ '' commit(s) since '' @ tag lastTag) w1))
      in if maxCommitScan = None \<or> commits = [] then counted
         else if (case maxCommitScan of None \<Rightarrow> False
                  | Some m \<Rightarrow> m = 0 \<or> int (length commits) < m)
         then (length commits, w)
         else counted)"

text \<open>Lines 629 to 642: the same without a tag, on the whole history.\<close>

definition count_all ::
  "Repository \<Rightarrow> 's Progress \<Rightarrow> int option \<Rightarrow> CommitInfo list \<Rightarrow> 's World \<Rightarrow> nat \<times> 's World" where
  "count_all repo onProgress maxCommitScan commits w =
     (let counted =
            (let (n, w1) = countAllCommits repo onProgress w
             in (n, notify onProgress
                      (''Total commits in repository: '' @ toLocaleString n) w1))
      in if maxCommitScan = None \<or> commits = [] then counted
         else if (case maxCommitScan of None \<Rightarrow> False
                  | Some m \<Rightarrow> m = 0 \<or> int (length commits) < m)
         then (length commits, w)
         else counted)"

text \<open>Lines 581 to 622: the version when a last tag exists.\<close>

definition version_with_tag ::
  "VersionTag \<Rightarrow> bool \<Rightarrow> bool \<Rightarrow> CommitBumps \<Rightarrow> nat \<Rightarrow> string \<Rightarrow> string" where
  "version_with_tag lastTag isMainBranch enableCommitBumps commitBumps commitsSinceTag currentBranch =
     (if isMainBranch then
        (case (if enableCommitBumps then truthy (explicitVersion commitBumps) else None) of
           Some v \<Rightarrow> v
         | None \<Rightarrow>
             if enableCommitBumps \<and> (major commitBumps > 0 \<or> minor commitBumps > 0) then
               let newVersion = tag_version lastTag;
                   newVersion = newVersion
                     \<lparr>semver_major := semver_major newVersion + major commitBumps,
                      semver_minor := semver_minor newVersion + minor commitBumps\<rparr>;
                   newVersion =
                     (if major commitBumps > 0
                      then newVersion\<lparr>semver_minor := 0, semver_patch := 0\<rparr>
                      else if minor commitBumps > 0 then newVersion\<lparr>semver_patch := 0\<rparr>
                      else newVersion);
                   newVersion = newVersion
                     \<lparr>semver_patch := semver_patch newVersion + patch commitBumps\<rparr>
               in format newVersion
             else
               let newVersion = tag_version lastTag;
                   newVersion = newVersion
                     \<lparr>semver_patch := semver_patch newVersion + commitsSinceTag\<rparr>
               in format newVersion)
      else
        let baseVersion = tag_version lastTag;
            baseVersion = baseVersion\<lparr>semver_patch := semver_patch baseVersion + 1\<rparr>
        in format baseVersion @ ''-'' @ branchName currentBranch @ ''.'' @
           decimal commitsSinceTag)"

text \<open>Lines 644 to 668: the version when no tag exists.\<close>

definition version_without_tag ::
  "bool \<Rightarrow> bool \<Rightarrow> CommitBumps \<Rightarrow> nat \<Rightarrow> string \<Rightarrow> string" where
  "version_without_tag isMainBranch enableCommitBumps commitBumps commitsSinceTag currentBranch =
     (if isMainBranch then
        (case (if enableCommitBumps then truthy (explicitVersion commitBumps) else None) of
           Some v \<Rightarrow> v
         | None \<Rightarrow>
             if enableCommitBumps \<and> (major commitBumps > 0 \<or> minor commitBumps > 0) then
               let newVersion = \<lparr>semver_major = 0, semver_minor = 0, semver_patch = 0\<rparr>;
                   newVersion = newVersion\<lparr>semver_major := major commitBumps\<rparr>;
                   newVersion = newVersion\<lparr>semver_minor := minor commitBumps\<rparr>;
                   newVersion = newVersion\<lparr>semver_patch := patch commitBumps\<rparr>
               in format newVersion
             else ''0.0.'' @ decimal commitsSinceTag)
      else ''0.0.1-'' @ branchName currentBranch @ ''.'' @ decimal commitsSinceTag)"

subsection \<open>\<^verbatim>\<open>calculateVersion\<close>\<close>

text \<open>
  \<^verbatim>\<open>mainBranch\<close> is a string or an array of strings. The options \<^verbatim>\<open>cwd\<close> and
  \<^verbatim>\<open>tagPrefix\<close> select the repository and its version tags, which are an argument here.
\<close>

datatype MainBranch = BranchName string | BranchNames "string list"

record 's ProspectorOptions =
  mainBranch :: "MainBranch option"
  enableCommitBumps :: "bool option"
  maxCommitScan :: "int option"
  commitBumpPatterns :: "BumpPatterns option"
  onProgress :: "'s Progress option"

record VersionInfo =
  version :: string
  branch :: string
  isMainBranch :: bool
  commitsSinceTag :: nat
  lastTag :: "VersionTag option"
  currentCommit :: string
  commitBumps :: CommitBumps

text \<open>\<^verbatim>\<open>options.commitBumpPatterns?.major || DEFAULT_BUMP_PATTERNS.major\<close>, for one category.\<close>

definition pattern_or ::
  "BumpPatterns option \<Rightarrow> (BumpPatterns \<Rightarrow> RegExp option) \<Rightarrow> RegExp \<Rightarrow> RegExp option" where
  "pattern_or configured field dflt =
     (case configured of
        None \<Rightarrow> Some dflt
      | Some ps \<Rightarrow> (case field ps of None \<Rightarrow> Some dflt | Some r \<Rightarrow> Some r))"

text \<open>
  Lines 492 and 493: \<^verbatim>\<open>options.mainBranch || ['main', 'master']\<close>, made an array. An empty
  string is falsy, an empty array is not.
\<close>

definition mainBranches :: "'s ProspectorOptions \<Rightarrow> string list" where
  "mainBranches options =
     (let mainBranchOption =
            (case mainBranch options of
               None \<Rightarrow> BranchNames [''main'', ''master'']
             | Some (BranchName b) \<Rightarrow>
                 if b = [] then BranchNames [''main'', ''master''] else BranchName b
             | Some (BranchNames bs) \<Rightarrow> BranchNames bs)
      in case mainBranchOption of BranchName b \<Rightarrow> [b] | BranchNames bs \<Rightarrow> bs)"

text \<open>Lines 498 to 502.\<close>

definition bumpPatterns :: "'s ProspectorOptions \<Rightarrow> BumpPatterns" where
  "bumpPatterns options =
     \<lparr>major_pattern = pattern_or (commitBumpPatterns options) major_pattern DEFAULT_major,
      minor_pattern = pattern_or (commitBumpPatterns options) minor_pattern DEFAULT_minor,
      patch_pattern = pattern_or (commitBumpPatterns options) patch_pattern DEFAULT_patch\<rparr>"

text \<open>
  Lines 504 to 521: the current branch and commit, whether the branch is a main branch,
  and the last version tag that is an ancestor of the current commit.
\<close>

definition find_last_tag ::
  "'s Progress \<Rightarrow> string list \<Rightarrow> Repository \<Rightarrow> 's World
   \<Rightarrow> (string \<times> string \<times> bool \<times> VersionTag option) \<times> 's World" where
  "find_last_tag progress trunk repo w0 =
     (let w1 = notify progress ''Getting current branch and commit...'' w0;
          (current_branch, w2) = getCurrentBranch repo w1;
          (current_commit, w3) = getCurrentCommit repo w2;
          is_main = (current_branch \<in> set trunk);
          w4 = notify progress
                 (''Branch: '' @ current_branch @ '' | Commit: '' @ take 8 current_commit @
                  '' | Main: '' @ (if is_main then ''Yes'' else ''No'')) w3;
          w5 = notify progress ''Fetching version tags...'' w4;
          (versionTags, w6) = getVersionTags repo w5;
          w7 = (case versionTags of
                  [] \<Rightarrow> notify progress ''Found 0 version tags'' w6
                | latest # others \<Rightarrow>
                    notify progress
                      (''Found '' @ decimal (length versionTags) @
                       '' version tag(s) | Latest: '' @ tag latest) w6);
          (last_tag, w8) = getLastVersionTag repo current_commit versionTags w7
      in ((current_branch, current_commit, is_main, last_tag), w8))"

text \<open>Lines 561 to 669: the count of commits and the version string.\<close>

definition count_and_compose ::
  "'s Progress \<Rightarrow> Repository \<Rightarrow> int option \<Rightarrow> bool \<Rightarrow> bool \<Rightarrow> string \<Rightarrow> VersionTag option
   \<Rightarrow> CommitInfo list \<Rightarrow> CommitBumps \<Rightarrow> 's World \<Rightarrow> (string \<times> nat) \<times> 's World" where
  "count_and_compose progress repo maxScan is_main enabled current_branch last_tag commits bumps w9 =
     (case last_tag of
        Some t \<Rightarrow>
          let (n, wa) = count_since_tag repo progress maxScan commits t w9;
              wb = notify progress
                     (decimal n @ '' commit(s) since last tag ('' @ tag t @ '')'') wa
          in ((version_with_tag t is_main enabled bumps n current_branch, n), wb)
      | None \<Rightarrow>
          let wa = notify progress ''No version tags found, starting from 0.0.0'' w9;
              (n, wb) = count_all repo progress maxScan commits wa
          in ((version_without_tag is_main enabled bumps n current_branch, n), wb))"

definition calculateVersion ::
  "'s ProspectorOptions \<Rightarrow> Repository \<Rightarrow> 's World \<Rightarrow> VersionInfo \<times> 's World" where
  "calculateVersion options repo w0 =
     (let enabled = (enableCommitBumps options \<noteq> Some False);
          maxScan = maxCommitScan options;
          progress = (case onProgress options of None \<Rightarrow> (\<lambda>m s. s) | Some f \<Rightarrow> f);
          ((current_branch, current_commit, is_main, last_tag), w8) =
            find_last_tag progress (mainBranches options) repo w0;
          ((commits, bumps), w9) =
            (if enabled \<and> is_main
             then scan_for_bumps repo progress maxScan (bumpPatterns options) last_tag w8
             else (([], no_bumps), w8));
          ((result, since), w10) =
            count_and_compose progress repo maxScan is_main enabled current_branch last_tag
              commits bumps w9;
          w11 = notify progress (''Calculated version: '' @ result) w10
      in (\<lparr>version = result, branch = current_branch, isMainBranch = is_main,
           commitsSinceTag = since, lastTag = last_tag, currentCommit = current_commit,
           commitBumps = bumps\<rparr>, w11))"

subsection \<open>\<^verbatim>\<open>suggestVersionBump\<close>\<close>

text \<open>
  The argument \<^verbatim>\<open>bumpType\<close> is typed \<^verbatim>\<open>'major' | 'minor' | 'patch'\<close>, a type that is erased
  at run time: the command line and the GitHub action pass the user's string unchecked.
  It is a string here. \<open>release_types\<close> are the strings that the method \<^verbatim>\<open>inc\<close> of the
  semver package (version 7) has a case for.
\<close>

definition release_types :: "string list" where
  "release_types =
     [''major'', ''premajor'', ''minor'', ''preminor'', ''patch'', ''prepatch'',
      ''prerelease'', ''release'', ''pre'']"

text \<open>
  The method \<^verbatim>\<open>inc\<close> on a \<^verbatim>\<open>SemVer\<close> without prerelease part, followed by \<^verbatim>\<open>format()\<close>, as
  the semver package documents it. The prerelease kinds end the version with the
  prerelease \<^verbatim>\<open>0\<close>; \<^verbatim>\<open>release\<close> throws on a version that is not a prerelease, and every
  string outside \<open>release_types\<close> throws as an invalid increment argument.
\<close>

definition SemVer_inc :: "SemVer \<Rightarrow> string \<Rightarrow> string + string" where
  "SemVer_inc v release =
     (if release = ''major'' then
        Inr (format \<lparr>semver_major = semver_major v + 1, semver_minor = 0, semver_patch = 0\<rparr>)
      else if release = ''minor'' then
        Inr (format (v\<lparr>semver_minor := semver_minor v + 1, semver_patch := 0\<rparr>))
      else if release = ''patch'' then
        Inr (format (v\<lparr>semver_patch := semver_patch v + 1\<rparr>))
      else if release = ''premajor'' then
        Inr (format \<lparr>semver_major = semver_major v + 1, semver_minor = 0, semver_patch = 0\<rparr>
             @ ''-0'')
      else if release = ''preminor'' then
        Inr (format (v\<lparr>semver_minor := semver_minor v + 1, semver_patch := 0\<rparr>) @ ''-0'')
      else if release = ''prepatch'' \<or> release = ''prerelease'' then
        Inr (format (v\<lparr>semver_patch := semver_patch v + 1\<rparr>) @ ''-0'')
      else if release = ''pre'' then
        Inr (format v @ ''-0'')
      else if release = ''release'' then
        Inl (''version '' @ format v @ '' is not a prerelease'')
      else Inl (''invalid increment argument: '' @ release))"

text \<open>The function \<^verbatim>\<open>semver.inc\<close> catches what the method throws and returns \<^verbatim>\<open>null\<close>.\<close>

definition semver_inc :: "SemVer \<Rightarrow> string \<Rightarrow> string option" where
  "semver_inc v release = (case SemVer_inc v release of Inl e \<Rightarrow> None | Inr bumped \<Rightarrow> Some bumped)"

text \<open>
  The result is the settled promise: \<open>Inr\<close> the string it resolves to, \<open>Inl\<close> the reason it
  rejects with.
\<close>

definition suggestVersionBump ::
  "string \<Rightarrow> 's ProspectorOptions \<Rightarrow> Repository \<Rightarrow> 's World \<Rightarrow> (string + string) \<times> 's World" where
  "suggestVersionBump bumpType options repo w =
     (let (info, w1) = calculateVersion options repo w;
          currentBase = (case lastTag info of
                           Some t \<Rightarrow> tag_version t
                         | None \<Rightarrow> \<lparr>semver_major = 0, semver_minor = 0, semver_patch = 0\<rparr>);
          bumped = semver_inc currentBase bumpType
      in (Inr (case truthy bumped of Some v \<Rightarrow> v | None \<Rightarrow> ''1.0.0''), w1))"

subsection \<open>The value of a run\<close>

text \<open>
  The functions below restate, without the state, what the stages above compute; the
  lemmas of the next section prove that they are the first component of each stage.
  \<open>last_version_tag\<close> is the tag found by \<^verbatim>\<open>getLastVersionTag\<close>, \<open>scanned_commits\<close> the
  commits handed to \<^verbatim>\<open>analyzeCommitBumps\<close>, \<open>commits_since\<close> the count reported as
  \<^verbatim>\<open>commitsSinceTag\<close>.
\<close>

definition last_version_tag :: "Repository \<Rightarrow> VersionTag option" where
  "last_version_tag repo =
     (if version_tags repo = [] \<or> filter (\<lambda>l. l \<noteq> []) (merged_tags repo) = [] then None
      else find (\<lambda>t. tag t \<in> set (filter (\<lambda>l. l \<noteq> []) (merged_tags repo))) (version_tags repo))"

definition scanned_commits :: "Repository \<Rightarrow> int option \<Rightarrow> string \<Rightarrow> CommitInfo list" where
  "scanned_commits repo maxScan from =
     (case maxScan of
        None \<Rightarrow>
          parse_output
            (trim (log_output (filter (\<lambda>c. grep_pattern (message c)) (git_log repo from))))
      | Some m \<Rightarrow>
          if m > 0 then parse_output (trim (log_output (take (nat m) (git_log repo from))))
          else parse_output (trim (log_output (git_log repo from))))"

definition commits_since :: "Repository \<Rightarrow> int option \<Rightarrow> CommitInfo list \<Rightarrow> string \<Rightarrow> nat" where
  "commits_since repo maxScan commits from =
     (case maxScan of
        None \<Rightarrow> length (git_log repo from)
      | Some m \<Rightarrow>
          if commits \<noteq> [] \<and> (m = 0 \<or> int (length commits) < m) then length commits
          else length (git_log repo from))"

definition resolved :: "'s ProspectorOptions \<Rightarrow> Repository \<Rightarrow> VersionInfo" where
  "resolved options repo =
     (let current_branch = (if abbrev_ref repo = [] then ''unknown'' else abbrev_ref repo);
          is_main = (current_branch \<in> set (mainBranches options));
          enabled = (enableCommitBumps options \<noteq> Some False);
          last_tag = last_version_tag repo;
          from = (case last_tag of None \<Rightarrow> [] | Some t \<Rightarrow> commit t);
          commits = (if enabled \<and> is_main
                     then scanned_commits repo (maxCommitScan options) from else []);
          bumps = (if enabled \<and> is_main
                   then analyzeCommitBumps commits (bumpPatterns options) else no_bumps);
          since = commits_since repo (maxCommitScan options) commits from
      in \<lparr>version =
            (case last_tag of
               Some t \<Rightarrow> version_with_tag t is_main enabled bumps since current_branch
             | None \<Rightarrow> version_without_tag is_main enabled bumps since current_branch),
          branch = current_branch, isMainBranch = is_main, commitsSinceTag = since,
          lastTag = last_tag, currentCommit = head_commit repo, commitBumps = bumps\<rparr>)"

text \<open>The git commands that read commit messages.\<close>

fun reads_messages :: "GitCommand \<Rightarrow> bool" where
  "reads_messages (Log from limit) = True"
| "reads_messages (LogGrep from) = True"
| "reads_messages c = False"

subsection \<open>Example inputs\<close>

definition default_patterns :: BumpPatterns where
  "default_patterns =
     \<lparr>major_pattern = Some DEFAULT_major, minor_pattern = Some DEFAULT_minor,
      patch_pattern = Some DEFAULT_patch\<rparr>"

text \<open>Newest first: a minor bump, a major bump, an explicit version, and an older major bump.\<close>

definition mixed_history :: "CommitInfo list" where
  "mixed_history =
     [\<lparr>hash = ''c4'', message = ''[patch] [minor] tidy up''\<rparr>,
      \<lparr>hash = ''c3'', message = ''[minor] [MAJOR] new api''\<rparr>,
      \<lparr>hash = ''c2'', message = ''release [version:3.0.0]''\<rparr>,
      \<lparr>hash = ''c1'', message = ''[major] older''\<rparr>]"

text \<open>
  A run starts with no git command issued. \<open>default_options\<close> is the empty options
  object; \<open>logging_options\<close> only adds a progress callback, which records every message.
\<close>

definition fresh :: "unit World" where
  "fresh = \<lparr>git_calls = [], observer = ()\<rparr>"

definition default_options :: "unit ProspectorOptions" where
  "default_options =
     \<lparr>mainBranch = None, enableCommitBumps = None, maxCommitScan = None,
      commitBumpPatterns = None, onProgress = None\<rparr>"

text \<open>The legacy scan without a cap: \<^verbatim>\<open>maxCommitScan: 0\<close>.\<close>

definition legacy_options :: "unit ProspectorOptions" where
  "legacy_options =
     \<lparr>mainBranch = None, enableCommitBumps = None, maxCommitScan = Some 0,
      commitBumpPatterns = None, onProgress = None\<rparr>"

definition logging_options :: "string list ProspectorOptions" where
  "logging_options =
     \<lparr>mainBranch = None, enableCommitBumps = None, maxCommitScan = None,
      commitBumpPatterns = None, onProgress = Some (\<lambda>m seen. seen @ [m])\<rparr>"

text \<open>
  The repositories below have one version tag, on the commit \<open>t0\<close>; \<open>history_after\<close>
  lists the given commits for the range that starts at the tag and adds the tagged commit
  for any other range.
\<close>

definition v1_0_0 :: VersionTag where
  "v1_0_0 = \<lparr>tag = ''v1.0.0'',
             tag_version = \<lparr>semver_major = 1, semver_minor = 0, semver_patch = 0\<rparr>,
             commit = ''t0''\<rparr>"

definition v1_2_0 :: VersionTag where
  "v1_2_0 = \<lparr>tag = ''v1.2.0'',
             tag_version = \<lparr>semver_major = 1, semver_minor = 2, semver_patch = 0\<rparr>,
             commit = ''t0''\<rparr>"

definition tagged_commit :: CommitInfo where
  "tagged_commit = \<lparr>hash = ''t0'', message = ''Initial commit''\<rparr>"

definition history_after :: "CommitInfo list \<Rightarrow> string \<Rightarrow> CommitInfo list" where
  "history_after newer from = newer @ (if from = ''t0'' then [] else [tagged_commit])"

text \<open>On \<^verbatim>\<open>main\<close>: an explicit version, then two plain commits.\<close>

definition jump_repo :: Repository where
  "jump_repo =
     \<lparr>abbrev_ref = ''main'', head_commit = ''c3'', version_tags = [v1_0_0],
      merged_tags = [''v1.0.0''],
      git_log = history_after
        [\<lparr>hash = ''c3'', message = ''Commit 2''\<rparr>,
         \<lparr>hash = ''c2'', message = ''Commit 1''\<rparr>,
         \<lparr>hash = ''c1'', message = ''[v:2.0.0] jump''\<rparr>],
      timer_ticks = 0\<rparr>"

text \<open>On \<^verbatim>\<open>master\<close>: a major bump, then an explicit version as the newest commit.\<close>

definition release_repo :: Repository where
  "release_repo =
     \<lparr>abbrev_ref = ''master'', head_commit = ''c2'', version_tags = [v1_0_0],
      merged_tags = [''v1.0.0''],
      git_log = history_after
        [\<lparr>hash = ''c2'', message = ''[version:2.5.0] Align with upstream''\<rparr>,
         \<lparr>hash = ''c1'', message = ''[major] Breaking change''\<rparr>],
      timer_ticks = 1\<rparr>"

text \<open>On \<^verbatim>\<open>main\<close> after \<^verbatim>\<open>v1.2.0\<close>: two minor bumps, then a patch bump.\<close>

definition minor_repo :: Repository where
  "minor_repo =
     \<lparr>abbrev_ref = ''main'', head_commit = ''c3'', version_tags = [v1_2_0],
      merged_tags = [''v1.2.0''],
      git_log = history_after
        [\<lparr>hash = ''c3'', message = ''[patch] c''\<rparr>,
         \<lparr>hash = ''c2'', message = ''[minor] b''\<rparr>,
         \<lparr>hash = ''c1'', message = ''[minor] a''\<rparr>],
      timer_ticks = 0\<rparr>"


text \<open>
  On \<^verbatim>\<open>main\<close> without any tag: a major bump, a commit with an empty message, then a
  minor bump.
\<close>

definition untagged_repo :: Repository where
  "untagged_repo =
     \<lparr>abbrev_ref = ''main'', head_commit = ''c3'', version_tags = [], merged_tags = [],
      git_log = (\<lambda>from.
        [\<lparr>hash = ''c3'', message = ''[minor] add feature''\<rparr>,
         \<lparr>hash = ''c2'', message = []\<rparr>,
         \<lparr>hash = ''c1'', message = ''[major] breaking change''\<rparr>]),
      timer_ticks = 0\<rparr>"

text \<open>
  The custom pattern \<^verbatim>\<open>/^!/\<close> for major bumps, and a repository with one commit that
  matches it.
\<close>

definition bang_options :: "unit ProspectorOptions" where
  "bang_options =
     \<lparr>mainBranch = Some (BranchName ''main''), enableCommitBumps = None, maxCommitScan = None,
      commitBumpPatterns =
        Some \<lparr>major_pattern = Some (\<lambda>m. take 1 m = ''!''), minor_pattern = None,
              patch_pattern = None\<rparr>,
      onProgress = None\<rparr>"

definition bang_repo :: Repository where
  "bang_repo =
     \<lparr>abbrev_ref = ''main'', head_commit = ''c1'', version_tags = [v1_0_0],
      merged_tags = [''v1.0.0''],
      git_log = history_after [\<lparr>hash = ''c1'', message = ''! major change''\<rparr>],
      timer_ticks = 0\<rparr>"

text \<open>On a feature branch: two commits that carry markers.\<close>

definition feature_repo :: Repository where
  "feature_repo =
     \<lparr>abbrev_ref = ''feature/test@123'', head_commit = ''c2'', version_tags = [v1_0_0],
      merged_tags = [''v1.0.0''],
      git_log = history_after
        [\<lparr>hash = ''c2'', message = ''[major] rework''\<rparr>,
         \<lparr>hash = ''c1'', message = ''[v:9.9.9] try''\<rparr>],
      timer_ticks = 0\<rparr>"

section \<open>Properties\<close>

subsection \<open>Branch names\<close>

lemma last_dropWhile_nonempty: "dropWhile P xs \<noteq> [] \<Longrightarrow> last (dropWhile P xs) = last xs"
  by (metis last_appendR takeWhile_dropWhile_id)

lemma strip_ends:
  assumes "ys = rev (dropWhile P (rev (dropWhile P xs)))" and "ys \<noteq> []"
  shows "\<not> P (hd ys) \<and> \<not> P (last ys)"
proof -
  let ?a = "dropWhile P xs"
  let ?b = "dropWhile P (rev ?a)"
  have b: "?b \<noteq> []"
    using assms by simp
  have a: "?a \<noteq> []"
    using b by (metis dropWhile.simps(1) rev.simps(1))
  have "last ys = hd ?b"
    using assms b by (simp add: last_rev)
  moreover have "\<not> P (hd ?b)"
    using b by (rule hd_dropWhile)
  moreover have "hd ys = last ?b"
    using assms b by (simp add: hd_rev)
  moreover have "last ?b = last (rev ?a)"
    using b by (rule last_dropWhile_nonempty)
  moreover have "last (rev ?a) = hd ?a"
    using a by (simp add: last_rev)
  moreover have "\<not> P (hd ?a)"
    using a by (rule hd_dropWhile)
  ultimately show ?thesis
    by simp
qed

lemma strip_fixed:
  assumes "xs = [] \<or> (\<not> P (hd xs) \<and> \<not> P (last xs))"
  shows "rev (dropWhile P (rev (dropWhile P xs))) = xs"
proof (cases "xs = []")
  case True
  then show ?thesis by simp
next
  case False
  then have front: "dropWhile P xs = xs"
    using assms by (cases xs) auto
  have "\<not> P (hd (rev xs))"
    using False assms by (simp add: hd_rev)
  then have "dropWhile P (rev xs) = rev xs"
    using False by (cases "rev xs") auto
  then show ?thesis
    using front by simp
qed

lemma branchName_chars: "c \<in> set (branchName s) \<Longrightarrow> branch_char c"
  by (auto simp: branchName_def Let_def branch_char_def dest!: set_dropWhileD)

lemma replace_fixed:
  "\<forall>c \<in> set s. branch_char c \<Longrightarrow> map (\<lambda>c. if branch_char c then c else CHR ''-'') s = s"
  by (induction s) auto

text \<open>
  C7. The sanitisation of a branch name is defined on every string and idempotent; its
  result has only characters of \<^verbatim>\<open>[A-Za-z0-9-]\<close> and neither starts nor ends with \<^verbatim>\<open>-\<close>.
\<close>

theorem branchName_idempotent:
  "branchName (branchName s) = branchName s \<and>
   (\<forall>c \<in> set (branchName s). branch_char c) \<and>
   (branchName s = [] \<or> (hd (branchName s) \<noteq> CHR ''-'' \<and> last (branchName s) \<noteq> CHR ''-''))"
proof -
  have chars: "\<forall>c \<in> set (branchName s). branch_char c"
    using branchName_chars by blast
  have ends: "branchName s = [] \<or>
      (hd (branchName s) \<noteq> CHR ''-'' \<and> last (branchName s) \<noteq> CHR ''-'')"
    using strip_ends [of "branchName s" "\<lambda>c. c = CHR ''-''"
        "map (\<lambda>c. if branch_char c then c else CHR ''-'') s"]
    by (auto simp: branchName_def Let_def)
  have "map (\<lambda>c. if branch_char c then c else CHR ''-'') (branchName s) = branchName s"
    using chars by (rule replace_fixed)
  then have "branchName (branchName s) =
      rev (dropWhile (\<lambda>c. c = CHR ''-'') (rev (dropWhile (\<lambda>c. c = CHR ''-'') (branchName s))))"
    by (simp add: branchName_def [of "branchName s"] Let_def)
  also have "\<dots> = branchName s"
    using ends by (intro strip_fixed) auto
  finally show ?thesis
    using chars ends by blast
qed

theorem branchName_idempotent_witness:
  "branchName (branchName ''feature/test@123'') = ''feature-test-123'' \<and>
   branchName ''feature/test@123'' = ''feature-test-123'' \<and>
   list_all branch_char ''feature-test-123'' \<and>
   hd ''feature-test-123'' \<noteq> CHR ''-'' \<and> last ''feature-test-123'' \<noteq> CHR ''-''"
proof -
  have v: "branchName ''feature/test@123'' = ''feature-test-123''"
    by code_simp
  show ?thesis
    using branchName_idempotent [of "''feature/test@123''"] unfolding v
    by (simp add: list_all_iff)
qed

subsection \<open>Aggregation\<close>

lemma explicit_marker_nonempty: "explicit_marker m = Some v \<Longrightarrow> v \<noteq> []"
  by (auto simp: explicit_marker_def split: option.splits if_splits)

lemma analyze_loop_major:
  "major (analyze_loop p cs b) =
     major b + length (filter (\<lambda>c. test_opt (major_pattern p) (message c))
       (takeWhile (\<lambda>c. explicit_marker (message c) = None) cs))"
  by (induction cs arbitrary: b) (auto split: option.splits)

lemma analyze_loop_minor:
  "minor (analyze_loop p cs b) =
     minor b + length (filter (\<lambda>c. \<not> test_opt (major_pattern p) (message c) \<and>
                                  test_opt (minor_pattern p) (message c))
       (takeWhile (\<lambda>c. explicit_marker (message c) = None) cs))"
  by (induction cs arbitrary: b) (auto split: option.splits)

lemma analyze_loop_patch:
  "patch (analyze_loop p cs b) =
     patch b + length (filter (\<lambda>c. \<not> test_opt (major_pattern p) (message c) \<and>
                                  \<not> test_opt (minor_pattern p) (message c) \<and>
                                  test_opt (patch_pattern p) (message c))
       (takeWhile (\<lambda>c. explicit_marker (message c) = None) cs))"
  by (induction cs arbitrary: b) (auto split: option.splits)

lemma analyze_loop_explicit:
  "explicitVersion (analyze_loop p cs b) =
     (case dropWhile (\<lambda>c. explicit_marker (message c) = None) cs of
        [] \<Rightarrow> explicitVersion b
      | e # older \<Rightarrow> explicit_marker (message e))"
proof (induction cs arbitrary: b)
  case Nil
  show ?case by simp
next
  case (Cons a cs)
  show ?case
  proof (cases "explicit_marker (message a)")
    case None
    then have "\<exists>b'. analyze_loop p (a # cs) b = analyze_loop p cs b' \<and>
                 explicitVersion b' = explicitVersion b"
      by auto
    then obtain b' where b': "analyze_loop p (a # cs) b = analyze_loop p cs b'"
        "explicitVersion b' = explicitVersion b"
      by blast
    show ?thesis
      unfolding b'(1) Cons.IH [of b'] b'(2) using None by simp
  next
    case (Some v)
    then show ?thesis by simp
  qed
qed

lemma analyze_loop_stop:
  "explicit_marker (message e) = Some v \<Longrightarrow>
   \<forall>c \<in> set newer. explicit_marker (message c) = None \<Longrightarrow>
   analyze_loop p (newer @ e # older) b = (analyze_loop p newer b)\<lparr>explicitVersion := Some v\<rparr>"
  by (induction newer arbitrary: b) (auto split: option.splits)

text \<open>
  C2. On a newest-first sequence the aggregation counts each commit in at most one of
  major, minor and patch, the first of the three whose pattern matches; it stops at the
  newest commit with an explicit version marker, whose version it records: the commits
  newer than that one are counted, the older ones change nothing.
\<close>

theorem analyzeCommitBumps_newest_first:
  "let unmarked = (\<lambda>c. explicit_marker (message c) = None);
       newer = takeWhile unmarked commits;
       rest = dropWhile unmarked commits;
       is_major = (\<lambda>c. test_opt (major_pattern patterns) (message c));
       is_minor = (\<lambda>c. test_opt (minor_pattern patterns) (message c));
       is_patch = (\<lambda>c. test_opt (patch_pattern patterns) (message c));
       tally = analyzeCommitBumps commits patterns
   in major tally = length (filter is_major newer) \<and>
      minor tally = length (filter (\<lambda>c. \<not> is_major c \<and> is_minor c) newer) \<and>
      patch tally =
        length (filter (\<lambda>c. \<not> is_major c \<and> \<not> is_minor c \<and> is_patch c) newer) \<and>
      explicitVersion tally =
        (case rest of [] \<Rightarrow> None | e # older \<Rightarrow> explicit_marker (message e)) \<and>
      tally = analyzeCommitBumps (newer @ take 1 rest) patterns"
proof -
  let ?un = "\<lambda>c. explicit_marker (message c) = None"
  let ?newer = "takeWhile ?un commits"
  let ?rest = "dropWhile ?un commits"
  have split: "commits = ?newer @ ?rest"
    by simp
  have stop: "analyze_loop patterns commits no_bumps =
      analyze_loop patterns (?newer @ take 1 ?rest) no_bumps"
  proof (cases ?rest)
    case Nil
    then have "\<forall>c \<in> set commits. ?un c"
      by simp
    then have eq: "?newer = commits"
      by (simp only: takeWhile_eq_all_conv)
    show ?thesis
      by (simp only: Nil eq take.simps append_Nil2)
  next
    case (Cons e older)
    have "\<not> ?un (hd ?rest)"
      by (rule hd_dropWhile) (simp add: Cons)
    then have "explicit_marker (message e) \<noteq> None"
      by (simp add: Cons)
    then obtain v where v: "explicit_marker (message e) = Some v"
      by blast
    have new: "\<forall>c \<in> set ?newer. explicit_marker (message c) = None"
      using set_takeWhileD by fastforce
    have "analyze_loop patterns (?newer @ e # older) no_bumps =
          analyze_loop patterns (?newer @ e # []) no_bumps"
      by (simp only: analyze_loop_stop [OF v new])
    moreover have "commits = ?newer @ e # older"
      using split Cons by simp
    ultimately show ?thesis
      using Cons by simp
  qed
  have 1: "major (analyzeCommitBumps commits patterns) =
      length (filter (\<lambda>c. test_opt (major_pattern patterns) (message c)) ?newer)"
    by (simp add: analyzeCommitBumps_def analyze_loop_major no_bumps_def)
  have 2: "minor (analyzeCommitBumps commits patterns) =
      length (filter (\<lambda>c. \<not> test_opt (major_pattern patterns) (message c) \<and>
                           test_opt (minor_pattern patterns) (message c)) ?newer)"
    by (simp add: analyzeCommitBumps_def analyze_loop_minor no_bumps_def)
  have 3: "patch (analyzeCommitBumps commits patterns) =
      length (filter (\<lambda>c. \<not> test_opt (major_pattern patterns) (message c) \<and>
                           \<not> test_opt (minor_pattern patterns) (message c) \<and>
                           test_opt (patch_pattern patterns) (message c)) ?newer)"
    by (simp add: analyzeCommitBumps_def analyze_loop_patch no_bumps_def)
  have 4: "explicitVersion (analyzeCommitBumps commits patterns) =
      (case ?rest of [] \<Rightarrow> None | e # older \<Rightarrow> explicit_marker (message e))"
    by (simp add: analyzeCommitBumps_def analyze_loop_explicit no_bumps_def
        cong: list.case_cong)
  have 5: "analyzeCommitBumps commits patterns =
      analyzeCommitBumps (?newer @ take 1 ?rest) patterns"
    unfolding analyzeCommitBumps_def by (rule stop)
  show ?thesis
    unfolding Let_def using 1 2 3 4 5 by blast
qed

theorem analyzeCommitBumps_newest_first_witness:
  "major (analyzeCommitBumps mixed_history default_patterns) = 1 \<and>
   minor (analyzeCommitBumps mixed_history default_patterns) = 1 \<and>
   patch (analyzeCommitBumps mixed_history default_patterns) = 0 \<and>
   explicitVersion (analyzeCommitBumps mixed_history default_patterns) = Some ''3.0.0'' \<and>
   analyzeCommitBumps mixed_history default_patterns =
     analyzeCommitBumps (take 3 mixed_history) default_patterns"
proof -
  have e4: "explicit_marker ''[patch] [minor] tidy up'' = None"
    by code_simp
  have e3: "explicit_marker ''[minor] [MAJOR] new api'' = None"
    by code_simp
  have e2: "explicit_marker ''release [version:3.0.0]'' = Some ''3.0.0''"
    by code_simp
  have m4: "\<not> DEFAULT_major ''[patch] [minor] tidy up''"
    by code_simp
  have n4: "DEFAULT_minor ''[patch] [minor] tidy up''"
    by code_simp
  have m3: "DEFAULT_major ''[minor] [MAJOR] new api''"
    by code_simp
  note facts = mixed_history_def default_patterns_def test_opt_def e4 e3 e2 m4 n4 m3
  note tally = analyzeCommitBumps_newest_first [of mixed_history default_patterns, unfolded Let_def]
  have "major (analyzeCommitBumps mixed_history default_patterns) = 1"
    using tally [THEN conjunct1] by (simp add: facts)
  moreover have "minor (analyzeCommitBumps mixed_history default_patterns) = 1"
    using tally [THEN conjunct2, THEN conjunct1] by (simp add: facts)
  moreover have "patch (analyzeCommitBumps mixed_history default_patterns) = 0"
    using tally [THEN conjunct2, THEN conjunct2, THEN conjunct1] by (simp add: facts)
  moreover have "explicitVersion (analyzeCommitBumps mixed_history default_patterns) =
      Some ''3.0.0''"
    using tally [THEN conjunct2, THEN conjunct2, THEN conjunct2, THEN conjunct1]
    by (simp add: facts)
  moreover have "analyzeCommitBumps mixed_history default_patterns =
      analyzeCommitBumps (take 3 mixed_history) default_patterns"
    using tally [THEN conjunct2, THEN conjunct2, THEN conjunct2, THEN conjunct2]
    by (simp add: facts)
  ultimately show ?thesis
    by blast
qed

lemma analyze_explicit_nonempty:
  "explicitVersion (analyzeCommitBumps commits patterns) = Some v \<Longrightarrow> v \<noteq> []"
  by (auto simp: analyzeCommitBumps_def analyze_loop_explicit no_bumps_def explicit_marker_nonempty
      split: list.splits)

subsection \<open>The value of a run does not depend on the state\<close>

lemma take_drop_chunk:
  "(acc @ concat (map f (take k (drop i xs)))) @ concat (map f (drop (i + k) xs)) =
   acc @ concat (map f (drop i xs))"
proof -
  have "drop i xs = take k (drop i xs) @ drop (i + k) xs"
    by (metis add.commute append_take_drop_id drop_drop)
  then have "concat (map f (drop i xs)) =
      concat (map f (take k (drop i xs))) @ concat (map f (drop (i + k) xs))"
    by (metis concat_append map_append)
  then show ?thesis
    by simp
qed

lemma fst_parse_chunks:
  "fst (parse_chunks f blocks i acc w) = acc @ concat (map parse_block (drop i blocks))"
proof (induction f blocks i acc w rule: parse_chunks.induct)
  case (1 f blocks i acc w)
  show ?case
  proof (cases "i < length blocks")
    case True
    have "fst (parse_chunks f blocks i acc w) =
          (acc @ concat (map parse_block (take PARSE_CHUNK_SIZE (drop i blocks)))) @
          concat (map parse_block (drop (i + PARSE_CHUNK_SIZE) blocks))"
      apply (subst parse_chunks.simps)
      apply (simp only: True if_True Let_def)
      apply (rule "1.IH" [OF True refl refl refl refl refl])
      done
    then show ?thesis
      by (simp only: take_drop_chunk)
  next
    case False
    show ?thesis
      apply (subst parse_chunks.simps)
      apply (simp only: False if_False fst_conv)
      using False apply simp
      done
  qed
qed

lemma fst_getCommitsWithBumps:
  "fst (getCommitsWithBumps repo from f w) =
     parse_output (trim (log_output (filter (\<lambda>c. grep_pattern (message c)) (git_log repo from))))"
  by (simp add: getCommitsWithBumps_def parse_output_def Let_def split_def fst_parse_chunks)

lemma fst_getCommitMessages:
  "fst (getCommitMessages repo from limit w) =
     (case limit of
        None \<Rightarrow> parse_output (trim (log_output (git_log repo from)))
      | Some n \<Rightarrow>
          if n = 0 then parse_output (trim (log_output (git_log repo from)))
          else parse_output (trim (log_output (take n (git_log repo from)))))"
  by (simp add: getCommitMessages_def split: option.splits)

lemma fst_scan_for_bumps:
  "fst (scan_for_bumps repo f maxScan patterns last_tag w) =
     (let commits = scanned_commits repo maxScan (case last_tag of None \<Rightarrow> [] | Some t \<Rightarrow> commit t)
      in (commits, analyzeCommitBumps commits patterns))"
  by (cases maxScan)
     (simp_all add: scan_for_bumps_def scanned_commits_def Let_def split_def
        fst_getCommitsWithBumps fst_getCommitMessages)

lemma fst_count_since_tag:
  "fst (count_since_tag repo f maxScan commits t w) = commits_since repo maxScan commits (commit t)"
  by (cases maxScan)
     (auto simp: count_since_tag_def commits_since_def countCommits_def Let_def split_def)

lemma fst_count_all:
  "fst (count_all repo f maxScan commits w) = commits_since repo maxScan commits []"
  by (cases maxScan)
     (auto simp: count_all_def commits_since_def countAllCommits_def Let_def split_def)


lemma fst_getLastVersionTag:
  "fst (getLastVersionTag repo (head_commit repo) (version_tags repo) w) = last_version_tag repo"
  by (simp add: getLastVersionTag_def last_version_tag_def Let_def)

lemma fst_find_last_tag:
  "fst (find_last_tag f trunk repo w) =
     (let current_branch = (if abbrev_ref repo = [] then ''unknown'' else abbrev_ref repo)
      in (current_branch, head_commit repo, current_branch \<in> set trunk, last_version_tag repo))"
  by (simp add: find_last_tag_def Let_def split_def getCurrentBranch_def getCurrentCommit_def
      getVersionTags_def fst_getLastVersionTag)

lemma fst_count_and_compose:
  "fst (count_and_compose f repo maxScan is_main enabled current_branch last_tag commits bumps w) =
     (let since = commits_since repo maxScan commits
                    (case last_tag of None \<Rightarrow> [] | Some t \<Rightarrow> commit t)
      in (case last_tag of
            Some t \<Rightarrow> version_with_tag t is_main enabled bumps since current_branch
          | None \<Rightarrow> version_without_tag is_main enabled bumps since current_branch, since))"
  by (cases last_tag)
     (simp_all add: count_and_compose_def Let_def split_def fst_count_since_tag fst_count_all)

lemma calculateVersion_value:
  "fst (calculateVersion options repo w) = resolved options repo"
  by (cases "last_version_tag repo"; cases "abbrev_ref repo = []")
     (simp_all add: calculateVersion_def resolved_def Let_def split_def fst_find_last_tag
        fst_scan_for_bumps fst_count_and_compose)

subsection \<open>The git commands of a run\<close>

lemma git_calls_notify [simp]: "git_calls (notify f m w) = git_calls w"
  by (simp add: notify_def)

lemma git_calls_git [simp]: "git_calls (git c w) = git_calls w @ [c]"
  by (simp add: git_def)

lemma git_calls_count_ticks [simp]: "git_calls (count_ticks f label n w) = git_calls w"
proof -
  have "git_calls (fold (\<lambda>k. notify f (label @ replicate (k mod 4) CHR ''.'')) ks w) = git_calls w"
    for ks
    by (induction ks arbitrary: w) simp_all
  then show ?thesis
    by (simp only: count_ticks_def)
qed

lemma calls_getLastVersionTag:
  "filter reads_messages (git_calls (snd (getLastVersionTag repo c tags w))) =
   filter reads_messages (git_calls w)"
  by (simp add: getLastVersionTag_def Let_def)

lemma calls_count_since_tag:
  "filter reads_messages (git_calls (snd (count_since_tag repo f maxScan commits t w))) =
   filter reads_messages (git_calls w)"
  by (simp add: count_since_tag_def countCommits_def Let_def split_def)

lemma calls_count_all:
  "filter reads_messages (git_calls (snd (count_all repo f maxScan commits w))) =
   filter reads_messages (git_calls w)"
  by (simp add: count_all_def countAllCommits_def Let_def split_def)


lemma calls_find_last_tag:
  "filter reads_messages (git_calls (snd (find_last_tag f trunk repo w))) =
   filter reads_messages (git_calls w)"
  by (simp add: find_last_tag_def Let_def split_def getCurrentBranch_def getCurrentCommit_def
      getVersionTags_def calls_getLastVersionTag split: list.splits)

lemma calls_count_and_compose:
  "filter reads_messages
     (git_calls (snd (count_and_compose f repo maxScan is_main enabled current_branch last_tag
        commits bumps w))) =
   filter reads_messages (git_calls w)"
  by (cases last_tag)
     (simp_all add: count_and_compose_def Let_def split_def calls_count_since_tag calls_count_all)

subsection \<open>Example runs\<close>

lemma decimal_small:
  "decimal 0 = ''0''" "decimal 1 = ''1''" "decimal 2 = ''2''"
  "decimal 3 = ''3''" "decimal 4 = ''4''" "decimal 5 = ''5''"
  "decimal (Suc 0) = ''1''" "decimal (Suc (Suc 0)) = ''2''"
  "decimal (Suc (Suc (Suc 0))) = ''3''"
  by code_simp+

lemmas eval_run = resolved_def Let_def mainBranches_def bumpPatterns_def pattern_or_def
  last_version_tag_def scanned_commits_def commits_since_def analyzeCommitBumps_def no_bumps_def
  test_opt_def version_with_tag_def version_without_tag_def truthy_def format_def
  history_after_def tagged_commit_def v1_0_0_def v1_2_0_def decimal_small

lemma no_output: "parse_output (trim (log_output [])) = []"
  by code_simp

lemma jump_messages:
  "\<not> grep_pattern ''Commit 2''" "\<not> grep_pattern ''Commit 1''"
  "\<not> grep_pattern ''[v:2.0.0] jump''" "explicit_marker ''Commit 2'' = None"
  "\<not> DEFAULT_major ''Commit 2''" "\<not> DEFAULT_minor ''Commit 2''"
  "\<not> DEFAULT_patch ''Commit 2''"
  by code_simp+

lemma jump_output:
  "parse_output (trim (log_output
     [\<lparr>hash = ''c3'', message = ''Commit 2''\<rparr>, \<lparr>hash = ''c2'', message = ''Commit 1''\<rparr>,
      \<lparr>hash = ''c1'', message = ''[v:2.0.0] jump''\<rparr>])) =
   [\<lparr>hash = ''c3'', message = ''Commit 2''\<rparr>]"
  by code_simp

lemma jump_run:
  "resolved default_options jump_repo =
     \<lparr>version = ''1.0.3'', branch = ''main'', isMainBranch = True, commitsSinceTag = 3,
      lastTag = Some v1_0_0, currentCommit = ''c3'',
      commitBumps = \<lparr>major = 0, minor = 0, patch = 0, explicitVersion = None\<rparr>\<rparr>"
  by (simp add: eval_run default_options_def jump_repo_def jump_messages no_output)

lemma jump_legacy_run:
  "resolved legacy_options jump_repo =
     \<lparr>version = ''1.0.1'', branch = ''main'', isMainBranch = True, commitsSinceTag = 1,
      lastTag = Some v1_0_0, currentCommit = ''c3'',
      commitBumps = \<lparr>major = 0, minor = 0, patch = 0, explicitVersion = None\<rparr>\<rparr>"
  by (simp add: eval_run legacy_options_def jump_repo_def jump_messages jump_output)

lemma release_messages:
  "explicit_marker ''[version:2.5.0] Align with upstream'' = Some ''2.5.0''"
  by code_simp

lemma release_output:
  "parse_output (trim (log_output
     [\<lparr>hash = ''c2'', message = ''[version:2.5.0] Align with upstream''\<rparr>,
      \<lparr>hash = ''c1'', message = ''[major] Breaking change''\<rparr>])) =
   [\<lparr>hash = ''c2'', message = ''[version:2.5.0] Align with upstream''\<rparr>]"
  by code_simp

lemma release_run:
  "resolved legacy_options release_repo =
     \<lparr>version = ''2.5.0'', branch = ''master'', isMainBranch = True, commitsSinceTag = 1,
      lastTag = Some v1_0_0, currentCommit = ''c2'',
      commitBumps = \<lparr>major = 0, minor = 0, patch = 0, explicitVersion = Some ''2.5.0''\<rparr>\<rparr>"
  by (simp add: eval_run legacy_options_def release_repo_def release_messages release_output)

lemma minor_messages:
  "\<not> grep_pattern ''[patch] c''" "explicit_marker ''[patch] c'' = None"
  "\<not> DEFAULT_major ''[patch] c''" "\<not> DEFAULT_minor ''[patch] c''" "DEFAULT_patch ''[patch] c''"
  "\<not> grep_pattern ''[minor] b''" "explicit_marker ''[minor] b'' = None"
  "\<not> DEFAULT_major ''[minor] b''" "DEFAULT_minor ''[minor] b''"
  "\<not> grep_pattern ''[minor] a''" "explicit_marker ''[minor] a'' = None"
  "\<not> DEFAULT_major ''[minor] a''" "DEFAULT_minor ''[minor] a''"
  by code_simp+

lemma minor_run:
  "resolved default_options minor_repo =
     \<lparr>version = ''1.2.3'', branch = ''main'', isMainBranch = True, commitsSinceTag = 3,
      lastTag = Some v1_2_0, currentCommit = ''c3'',
      commitBumps = \<lparr>major = 0, minor = 0, patch = 0, explicitVersion = None\<rparr>\<rparr>"
  by (simp add: eval_run default_options_def minor_repo_def minor_messages no_output)





lemma untagged_messages:
  "explicit_marker ''[minor] add feature'' = None"
  "\<not> DEFAULT_major ''[minor] add feature''" "DEFAULT_minor ''[minor] add feature''"
  "explicit_marker ''[major] breaking change'' = None"
  "DEFAULT_major ''[major] breaking change''"
  by code_simp+

lemma untagged_output:
  "parse_output (trim (log_output
     [\<lparr>hash = ''c3'', message = ''[minor] add feature''\<rparr>, \<lparr>hash = ''c2'', message = []\<rparr>,
      \<lparr>hash = ''c1'', message = ''[major] breaking change''\<rparr>])) =
   [\<lparr>hash = ''c3'', message = ''[minor] add feature''\<rparr>,
    \<lparr>hash = LF # ''c1'', message = ''[major] breaking change''\<rparr>]"
  by code_simp

lemma untagged_run:
  "resolved legacy_options untagged_repo =
     \<lparr>version = ''1.1.0'', branch = ''main'', isMainBranch = True, commitsSinceTag = 2,
      lastTag = None, currentCommit = ''c3'',
      commitBumps = \<lparr>major = 1, minor = 1, patch = 0, explicitVersion = None\<rparr>\<rparr>"
  by (simp add: eval_run legacy_options_def untagged_repo_def untagged_messages untagged_output)

lemma bang_messages:
  "\<not> grep_pattern ''! major change''" "explicit_marker ''! major change'' = None"
  by code_simp+

lemma bang_output:
  "parse_output (trim (log_output [\<lparr>hash = ''c1'', message = ''! major change''\<rparr>])) =
   [\<lparr>hash = ''c1'', message = ''! major change''\<rparr>]"
  by code_simp

lemma bang_targeted_run:
  "resolved bang_options bang_repo =
     \<lparr>version = ''1.0.1'', branch = ''main'', isMainBranch = True, commitsSinceTag = 1,
      lastTag = Some v1_0_0, currentCommit = ''c1'', commitBumps = no_bumps\<rparr>"
  by (simp add: eval_run bang_options_def bang_repo_def bang_messages no_output)

lemma bang_exhaustive_run:
  "resolved (bang_options\<lparr>maxCommitScan := Some 0\<rparr>) bang_repo =
     \<lparr>version = ''2.0.0'', branch = ''main'', isMainBranch = True, commitsSinceTag = 1,
      lastTag = Some v1_0_0, currentCommit = ''c1'',
      commitBumps = \<lparr>major = 1, minor = 0, patch = 0, explicitVersion = None\<rparr>\<rparr>"
  by (simp add: eval_run bang_options_def bang_repo_def bang_messages bang_output)

lemma feature_branchName: "branchName ''feature/test@123'' = ''feature-test-123''"
  by code_simp

lemma feature_run:
  "resolved default_options feature_repo =
     \<lparr>version = ''1.0.1-feature-test-123.2'', branch = ''feature/test@123'',
      isMainBranch = False, commitsSinceTag = 2, lastTag = Some v1_0_0, currentCommit = ''c2'',
      commitBumps = no_bumps\<rparr>"
  by (simp add: eval_run default_options_def feature_repo_def feature_branchName)

subsection \<open>Explicit versions\<close>

text \<open>
  C1. On a main branch with commit bumps enabled, when the tally of the run carries an
  explicit version, the version of the run is exactly that string: the counts of major,
  minor and patch bumps from newer commits, the last tag and the number of commits since
  it play no part.
\<close>

theorem explicit_version_wins:
  assumes "isMainBranch (fst (calculateVersion options repo w))"
    and "enableCommitBumps options \<noteq> Some False"
    and "explicitVersion (commitBumps (fst (calculateVersion options repo w))) = Some v"
  shows "version (fst (calculateVersion options repo w)) = v"
proof -
  have nonempty: "v \<noteq> []"
    using assms(3)
    by (auto simp: calculateVersion_value resolved_def Let_def no_bumps_def
        dest: analyze_explicit_nonempty split: if_splits)
  then have truthy: "truthy (Some v) = Some v"
    by (simp add: truthy_def)
  show ?thesis
    using assms truthy
    by (cases "last_version_tag repo")
       (simp_all add: calculateVersion_value resolved_def Let_def version_with_tag_def
          version_without_tag_def)
qed

theorem explicit_version_wins_witness:
  "isMainBranch (fst (calculateVersion legacy_options release_repo fresh)) \<and>
   lastTag (fst (calculateVersion legacy_options release_repo fresh)) = Some v1_0_0 \<and>
   explicitVersion (commitBumps (fst (calculateVersion legacy_options release_repo fresh))) =
     Some ''2.5.0'' \<and>
   version (fst (calculateVersion legacy_options release_repo fresh)) = ''2.5.0''"
proof -
  have run: "fst (calculateVersion legacy_options release_repo fresh) =
      resolved legacy_options release_repo"
    by (rule calculateVersion_value)
  have trunk: "isMainBranch (fst (calculateVersion legacy_options release_repo fresh))"
    by (simp add: run release_run)
  have enabled: "enableCommitBumps legacy_options \<noteq> Some False"
    by (simp add: legacy_options_def)
  have explicit: "explicitVersion
      (commitBumps (fst (calculateVersion legacy_options release_repo fresh))) = Some ''2.5.0''"
    by (simp add: run release_run)
  have "version (fst (calculateVersion legacy_options release_repo fresh)) = ''2.5.0''"
    using trunk enabled explicit by (rule explicit_version_wins)
  moreover have "lastTag (fst (calculateVersion legacy_options release_repo fresh)) = Some v1_0_0"
    by (simp add: run release_run)
  ultimately show ?thesis
    using trunk explicit by simp
qed

text \<open>
  C4. The runs on \<open>jump_repo\<close>: last tag \<^verbatim>\<open>v1.0.0\<close> on a main branch, the commit
  \<^verbatim>\<open>[v:2.0.0] jump\<close> and two plain commits after it. With the default options the grep
  of the targeted scan selects no commit, the tally is empty and the three commits since
  the tag give \<^verbatim>\<open>1.0.3\<close>. With the legacy scan only the newest commit is parsed, a plain
  one, and the version is \<^verbatim>\<open>1.0.1\<close>. The explicit version is found by neither.
\<close>

theorem explicit_then_plain_commits:
  "lastTag (fst (calculateVersion default_options jump_repo fresh)) = Some v1_0_0 \<and>
   isMainBranch (fst (calculateVersion default_options jump_repo fresh)) \<and>
   explicitVersion (commitBumps (fst (calculateVersion default_options jump_repo fresh))) = None \<and>
   commitsSinceTag (fst (calculateVersion default_options jump_repo fresh)) = 3 \<and>
   version (fst (calculateVersion default_options jump_repo fresh)) = ''1.0.3'' \<and>
   explicitVersion (commitBumps (fst (calculateVersion legacy_options jump_repo fresh))) = None \<and>
   version (fst (calculateVersion legacy_options jump_repo fresh)) = ''1.0.1''"
  by (simp add: calculateVersion_value jump_run jump_legacy_run)

subsection \<open>Composition from the tally\<close>

text \<open>
  C3. The run on \<open>untagged_repo\<close> with the legacy scan: no version tag, a main branch, and
  a history from which one minor and one major bump are parsed. Without a tag the three
  counts of the tally become the three parts of the version as they are, so that the
  minor count is kept beside a major bump: the version is \<^verbatim>\<open>1.1.0\<close>.
\<close>

theorem untagged_major_keeps_minor:
  "lastTag (fst (calculateVersion legacy_options untagged_repo fresh)) = None \<and>
   isMainBranch (fst (calculateVersion legacy_options untagged_repo fresh)) \<and>
   commitBumps (fst (calculateVersion legacy_options untagged_repo fresh)) =
     \<lparr>major = 1, minor = 1, patch = 0, explicitVersion = None\<rparr> \<and>
   version (fst (calculateVersion legacy_options untagged_repo fresh)) = ''1.1.0''"
  by (simp add: calculateVersion_value untagged_run)




subsection \<open>Targeted and exhaustive scans\<close>

text \<open>
  C6. The run on \<open>bang_repo\<close> with the custom major pattern \<^verbatim>\<open>/^!/\<close>. The targeted scan
  (no \<^verbatim>\<open>maxCommitScan\<close>) greps for a constant in which the configured patterns take no
  part, finds no commit, and the version is \<^verbatim>\<open>1.0.1\<close> with an empty tally; the exhaustive
  scan without a cap (\<^verbatim>\<open>maxCommitScan = 0\<close>) on the same history counts one major bump and
  gives \<^verbatim>\<open>2.0.0\<close>.
\<close>

theorem custom_pattern_targeted_differs:
  "commitBumps (fst (calculateVersion bang_options bang_repo fresh)) = no_bumps \<and>
   version (fst (calculateVersion bang_options bang_repo fresh)) = ''1.0.1'' \<and>
   commitBumps (fst (calculateVersion (bang_options\<lparr>maxCommitScan := Some 0\<rparr>) bang_repo fresh)) =
     \<lparr>major = 1, minor = 0, patch = 0, explicitVersion = None\<rparr> \<and>
   version (fst (calculateVersion (bang_options\<lparr>maxCommitScan := Some 0\<rparr>) bang_repo fresh)) =
     ''2.0.0''"
  by (simp add: calculateVersion_value bang_targeted_run bang_exhaustive_run)

subsection \<open>Suggesting a bump\<close>

text \<open>
  C8, as amended. When \<^verbatim>\<open>suggestVersionBump\<close> is given a kind that is not a release type
  of semver, no error reaches the caller: \<^verbatim>\<open>semver.inc\<close> returns \<^verbatim>\<open>null\<close> and the promise
  resolves to the fallback string \<^verbatim>\<open>1.0.0\<close>, whatever the repository and the options are.
\<close>

theorem suggestVersionBump_invalid_kind:
  assumes "k \<notin> set release_types"
  shows "fst (suggestVersionBump k options repo w) = Inr ''1.0.0''"
  using assms
  by (simp add: suggestVersionBump_def Let_def split_def semver_inc_def SemVer_inc_def
      truthy_def release_types_def)

theorem suggestVersionBump_invalid_kind_witness:
  "fst (suggestVersionBump ''mayor'' logging_options untagged_repo
          \<lparr>git_calls = [], observer = []\<rparr>) = Inr ''1.0.0''"
  by (rule suggestVersionBump_invalid_kind) (simp add: release_types_def)

text \<open>
  C8. Given the kind \<^verbatim>\<open>bogus\<close> on \<open>jump_repo\<close>, \<^verbatim>\<open>suggestVersionBump\<close> does not fail: it
  resolves to a version string.
\<close>

theorem suggestVersionBump_invalid_kind_counterexample:
  "fst (suggestVersionBump ''bogus'' default_options jump_repo fresh) = Inr ''1.0.0''"
  by (simp add: suggestVersionBump_def Let_def split_def semver_inc_def SemVer_inc_def truthy_def)

text \<open>
  A kind that semver knows is answered with a version, also outside the three of the type:
  from \<^verbatim>\<open>v1.2.0\<close>, \<^verbatim>\<open>prerelease\<close> gives \<^verbatim>\<open>1.2.1-0\<close> and \<^verbatim>\<open>minor\<close> gives \<^verbatim>\<open>1.3.0\<close>.
\<close>

lemma suggestVersionBump_known_kinds:
  "fst (suggestVersionBump ''prerelease'' default_options minor_repo fresh) = Inr ''1.2.1-0''"
  "fst (suggestVersionBump ''minor'' default_options minor_repo fresh) = Inr ''1.3.0''"
  by (simp_all add: suggestVersionBump_def Let_def split_def semver_inc_def SemVer_inc_def
      truthy_def calculateVersion_value minor_run v1_2_0_def format_def decimal_small)

subsection \<open>Progress notifications\<close>

text \<open>
  C9. Two runs of \<^verbatim>\<open>calculateVersion\<close> on the same repository whose options differ only
  in \<^verbatim>\<open>onProgress\<close> (absent, or any callback, on any state of the caller) return the same
  \<^verbatim>\<open>VersionInfo\<close>. A callback is a total function on the state of its caller: it returns
  normally and does not change the repository.
\<close>

theorem onProgress_does_not_change_result:
  assumes "mainBranch options1 = mainBranch options2"
    and "enableCommitBumps options1 = enableCommitBumps options2"
    and "maxCommitScan options1 = maxCommitScan options2"
    and "commitBumpPatterns options1 = commitBumpPatterns options2"
  shows "fst (calculateVersion options1 repo w1) = fst (calculateVersion options2 repo w2)"
proof -
  have trunk: "mainBranches options1 = mainBranches options2"
    using assms(1) by (simp add: mainBranches_def)
  have patterns: "bumpPatterns options1 = bumpPatterns options2"
    using assms(4) by (simp add: bumpPatterns_def)
  have "resolved options1 repo = resolved options2 repo"
    unfolding resolved_def trunk patterns assms(2) assms(3) ..
  then show ?thesis
    by (simp only: calculateVersion_value)
qed

theorem onProgress_does_not_change_result_witness:
  "fst (calculateVersion default_options jump_repo fresh) =
   fst (calculateVersion logging_options jump_repo \<lparr>git_calls = [], observer = []\<rparr>)"
  by (rule onProgress_does_not_change_result)
     (simp_all add: default_options_def logging_options_def)

subsection \<open>Runs that do not scan\<close>

text \<open>
  C10. When the current branch is not a main branch, or \<^verbatim>\<open>enableCommitBumps\<close> is false,
  the run issues no git command that reads commit messages, and the \<^verbatim>\<open>commitBumps\<close> it
  returns are all zero with no explicit version, whatever the commits contain.
\<close>

theorem no_scan_off_trunk_or_disabled:
  assumes "\<not> isMainBranch (fst (calculateVersion options repo w)) \<or>
           enableCommitBumps options = Some False"
  shows "commitBumps (fst (calculateVersion options repo w)) = no_bumps \<and>
         filter reads_messages (git_calls (snd (calculateVersion options repo w))) =
           filter reads_messages (git_calls w)"
proof -
  let ?branch = "if abbrev_ref repo = [] then ''unknown'' else abbrev_ref repo"
  have skip: "\<not> (enableCommitBumps options \<noteq> Some False \<and> ?branch \<in> set (mainBranches options))"
    using assms by (auto simp: calculateVersion_value resolved_def Let_def)
  have bumps: "commitBumps (fst (calculateVersion options repo w)) = no_bumps"
    using skip by (auto simp: calculateVersion_value resolved_def Let_def)
  have calls: "filter reads_messages (git_calls (snd (calculateVersion options repo w))) =
      filter reads_messages (git_calls w)"
    using skip
    by (cases "abbrev_ref repo = []")
       (auto simp: calculateVersion_def Let_def split_def fst_find_last_tag
          calls_find_last_tag calls_count_and_compose)
  show ?thesis
    using bumps calls by simp
qed

theorem no_scan_off_trunk_or_disabled_witness:
  "commitBumps (fst (calculateVersion default_options feature_repo fresh)) =
     \<lparr>major = 0, minor = 0, patch = 0, explicitVersion = None\<rparr> \<and>
   filter reads_messages (git_calls (snd (calculateVersion default_options feature_repo fresh))) = []"
proof -
  have "\<not> isMainBranch (fst (calculateVersion default_options feature_repo fresh))"
    by (simp add: calculateVersion_value feature_run)
  then have "\<not> isMainBranch (fst (calculateVersion default_options feature_repo fresh)) \<or>
      enableCommitBumps default_options = Some False"
    by simp
  from no_scan_off_trunk_or_disabled [OF this] show ?thesis
    by (simp add: fresh_def no_bumps_def)
qed

end
